theory Spec2Isabelle
  imports Main
begin

section \<open>Kalamar items: the property store of \<open>kalamar/item.py\<close>\<close>

subsection \<open>Values and exceptions\<close>

text \<open>
  Property values are Python objects; the model keeps the shapes the module and its
  documentation mention: \<open>None\<close>, strings, booleans and integers.
\<close>

datatype pyval = PyNone | PyStr string | PyBool bool | PyInt int

text \<open>
  The exceptions the module can raise: \<open>KeyError\<close> from a dictionary lookup,
  \<open>NameError\<close> from evaluating a name that is bound nowhere, the
  \<open>OperatorNotAvailable\<close> that \<open>matches\<close> tries to raise and the
  \<open>NotImplementedError\<close> of the abstract methods.
\<close>

datatype error =
    KeyError string
  | NameError string
  | OperatorNotAvailable string
  | NotImplementedError string

subsection \<open>Items and their property store\<close>

text \<open>
  What \<open>ItemProperties\<close> reads from its owning item: the alias table
  \<open>_properties_aliases\<close> (a dictionary from names to names) and the method
  \<open>_read_property_from_data\<close>, which a concrete item class has to supply. The method
  reads the data of the item, so it takes the state of that data and returns it.
\<close>

record 'd Item =
  properties_aliases :: "string \<rightharpoonup> string"
  read_property_from_data :: "string \<Rightarrow> 'd \<Rightarrow> pyval \<times> 'd"

text \<open>
  An \<open>ItemProperties\<close> object is a dictionary (its own entries, \<open>entries\<close>) with one
  more attribute, \<open>forced_values\<close>. The state also holds the data of the owning item
  and, as a ghost field, the list of the names \<open>_read_property_from_data\<close> has been
  called with, in order.
\<close>

record 'd ItemProperties =
  forced_values :: "string \<rightharpoonup> pyval"
  entries :: "string \<rightharpoonup> pyval"
  item_data :: 'd
  hook_calls :: "string list"

text \<open>\<open>ItemProperties.__init__\<close>: the dictionary starts empty.\<close>

definition init :: "(string \<rightharpoonup> pyval) \<Rightarrow> 'd \<Rightarrow> 'd ItemProperties" where
  "init forced d =
     \<lparr>forced_values = forced, entries = Map.empty, item_data = d, hook_calls = []\<rparr>"

text \<open>\<open>dict.__getitem__\<close>: a missing key raises \<open>KeyError\<close>.\<close>

definition dict_getitem :: "(string \<rightharpoonup> pyval) \<Rightarrow> string \<Rightarrow> error + pyval" where
  "dict_getitem d k = (case d k of Some v \<Rightarrow> Inr v | None \<Rightarrow> Inl (KeyError k))"

text \<open>\<open>ItemProperties._alias\<close>: \<open>_properties_aliases.get(prop_name, prop_name)\<close>.\<close>

definition ItemProperties_alias :: "'d Item \<Rightarrow> string \<Rightarrow> string" where
  "ItemProperties_alias itm prop_name =
     (case properties_aliases itm prop_name of Some c \<Rightarrow> c | None \<Rightarrow> prop_name)"

text \<open>
  \<open>ItemProperties\<close> does not override \<open>__setitem__\<close>: \<open>props[key] = value\<close> is
  the assignment of \<open>dict\<close>, on the key as it is given.
\<close>

definition setitem :: "string \<Rightarrow> pyval \<Rightarrow> 'd ItemProperties \<Rightarrow> 'd ItemProperties" where
  "setitem key v s = s\<lparr>entries := (entries s)(key \<mapsto> v)\<rparr>"

text \<open>
  The call \<open>self._item._read_property_from_data(name)\<close>: it runs the method of the item
  on the item's data and is recorded in \<open>hook_calls\<close>.
\<close>

definition call_hook ::
  "'d Item \<Rightarrow> string \<Rightarrow> 'd ItemProperties \<Rightarrow> pyval \<times> 'd ItemProperties" where
  "call_hook itm name s =
     (case read_property_from_data itm name (item_data s) of
        (v, d') \<Rightarrow> (v, s\<lparr>item_data := d', hook_calls := hook_calls s @ [name]\<rparr>))"

text \<open>
  \<open>ItemProperties.__getitem__\<close>. The first \<open>try\<close> looks the key up in
  \<open>forced_values\<close> as it is given; on \<open>KeyError\<close> the second looks the aliased key up
  in the dictionary itself; on \<open>KeyError\<close> again the method of the item is called with
  the aliased key, its result is assigned under the aliased key and read back.
\<close>

definition getitem ::
  "'d Item \<Rightarrow> string \<Rightarrow> 'd ItemProperties \<Rightarrow> (error + pyval) \<times> 'd ItemProperties" where
  "getitem itm key s =
     (case dict_getitem (forced_values s) key of
        Inr res \<Rightarrow> (Inr res, s)
      | Inl _ \<Rightarrow>
          (case dict_getitem (entries s) (ItemProperties_alias itm key) of
             Inr res \<Rightarrow> (Inr res, s)
           | Inl _ \<Rightarrow>
               (case call_hook itm (ItemProperties_alias itm key) s of
                  (v, s1) \<Rightarrow>
                    (let s2 = setitem (ItemProperties_alias itm key) v s1
                     in (dict_getitem (entries s2) (ItemProperties_alias itm key), s2)))))"

text \<open>
  The calls made on a store during its lifetime: a lookup \<open>props[key]\<close> or an
  assignment \<open>props[key] = v\<close>. \<open>run_ops\<close> performs a list of them in order.
\<close>

datatype store_op = Get string | Set string pyval

fun step :: "'d Item \<Rightarrow> store_op \<Rightarrow> 'd ItemProperties \<Rightarrow> 'd ItemProperties" where
  "step itm (Get key) s = snd (getitem itm key s)"
| "step itm (Set key v) s = setitem key v s"

fun run_ops :: "'d Item \<Rightarrow> store_op list \<Rightarrow> 'd ItemProperties \<Rightarrow> 'd ItemProperties" where
  "run_ops itm [] s = s"
| "run_ops itm (x # xs) s = run_ops itm xs (step itm x s)"

fun writes_to :: "string \<Rightarrow> store_op \<Rightarrow> bool" where
  "writes_to k (Get key) = False"
| "writes_to k (Set key v) = (key = k)"

text \<open>
  The resolution order as the specification words it, for comparison with \<open>getitem\<close>:
  alias the requested name first, then forced values, then the cache, then the item.
\<close>

definition spec_get ::
  "'d Item \<Rightarrow> string \<Rightarrow> 'd ItemProperties \<Rightarrow> (error + pyval) \<times> 'd ItemProperties" where
  "spec_get itm name s =
     (let k = ItemProperties_alias itm name in
      case forced_values s k of
        Some v \<Rightarrow> (Inr v, s)
      | None \<Rightarrow>
          (case entries s k of
             Some v \<Rightarrow> (Inr v, s)
           | None \<Rightarrow> (case call_hook itm k s of (v, s1) \<Rightarrow> (Inr v, setitem k v s1))))"

subsection \<open>Atomic items\<close>

text \<open>\<open>AtomItem.read\<close> is \<open>self.properties["_content"]\<close>.\<close>

definition AtomItem_read ::
  "'d Item \<Rightarrow> 'd ItemProperties \<Rightarrow> (error + pyval) \<times> 'd ItemProperties" where
  "AtomItem_read itm s = getitem itm ''_content'' s"

text \<open>\<open>AtomItem.write\<close> is \<open>self.properties["_content"] = value\<close>.\<close>

definition AtomItem_write :: "pyval \<Rightarrow> 'd ItemProperties \<Rightarrow> 'd ItemProperties" where
  "AtomItem_write v s = setitem ''_content'' v s"

subsection \<open>Matching\<close>

text \<open>\<open>BaseItem._convert_value_type\<close>: the method returns its argument.\<close>

definition convert_value_type :: "string \<Rightarrow> pyval \<Rightarrow> pyval" where
  "convert_value_type prop_name v = v"

text \<open>
  The names bound at the top level of \<open>item.py\<close>: the imported module and the four
  classes. The built-in names the module refers to are listed beside them.
\<close>

definition module_globals :: "string list" where
  "module_globals =
     [''kalamar'', ''BaseItem'', ''AtomItem'', ''CapsuleItem'', ''ItemProperties'']"

definition builtin_names :: "string list" where
  "builtin_names =
     [''None'', ''KeyError'', ''NotImplementedError'', ''dict'', ''list'', ''property'',
      ''super'']"

text \<open>
  Evaluating a name that is not a local variable, for the names that occur in
  \<open>item.py\<close>: it is looked up among the names of the module, then among the
  built-in names; a name found in neither raises \<open>NameError\<close>.
\<close>

definition load_name :: "string \<Rightarrow> error + string" where
  "load_name n =
     (if n \<in> set module_globals then Inr n
      else if n \<in> set builtin_names then Inr n
      else Inl (NameError n))"

text \<open>
  \<open>BaseItem.matches\<close>. The operator table \<open>kalamar.operators\<close> belongs to the
  package and is a parameter here. The body reads the property, then evaluates the
  bare name \<open>_convert_value_type\<close> (not \<open>self._convert_value_type\<close>), then looks the
  operator up and calls it inside a \<open>try\<close> whose handler evaluates the name
  \<open>OperatorNotAvailable\<close>. The result of the operator is not returned: the body has
  no \<open>return\<close>, so a call that gets to its end returns \<open>None\<close>.
\<close>

definition matches ::
  "(string \<rightharpoonup> (pyval \<Rightarrow> pyval \<Rightarrow> bool)) \<Rightarrow> 'd Item \<Rightarrow> string \<Rightarrow> string \<Rightarrow> pyval \<Rightarrow>
     'd ItemProperties \<Rightarrow> (error + pyval) \<times> 'd ItemProperties" where
  "matches operators itm prop_name operator v s =
     (case getitem itm prop_name s of
        (Inl e, s1) \<Rightarrow> (Inl e, s1)
      | (Inr prop_val, s1) \<Rightarrow>
          (case load_name ''_convert_value_type'' of
             Inl e \<Rightarrow> (Inl e, s1)
           | Inr _ \<Rightarrow>
               (let v1 = convert_value_type prop_name v in
                case operators operator of
                  Some f \<Rightarrow> (case f prop_val v1 of _ \<Rightarrow> (Inr PyNone, s1))
                | None \<Rightarrow>
                    (case load_name ''OperatorNotAvailable'' of
                       Inl e \<Rightarrow> (Inl e, s1)
                     | Inr _ \<Rightarrow> (Inl (OperatorNotAvailable operator), s1)))))"

section \<open>The site registry\<close>

text \<open>
  An access point is an object; the registry tells access points apart by identity,
  which the model keeps as a number. The test module compares \<open>site.access_points\<close>
  with a dictionary from names to access points.
\<close>

type_synonym access_point = nat

record Site =
  access_points :: "(string \<times> access_point) list"

datatype register_error = DuplicateName string | DuplicateAccessPoint access_point

text \<open>
  Modelled from the spec: \<open>Site.register\<close> (the class \<open>kalamar.Site\<close> is not among
  the sources, only its tests are). Registering fails with a duplicate-name condition
  if the name is already registered, and with a duplicate-access-point condition if
  the access point is already registered under any name, the name given included;
  otherwise the binding is inserted. The specification gives no order between the two
  checks, and the tests see one exception class for both, so a failure carries every
  condition that holds. A failure leaves the registry as it was.
\<close>

definition register ::
  "string \<Rightarrow> access_point \<Rightarrow> Site \<Rightarrow> (register_error set + unit) \<times> Site" where
  "register name ap site =
     (let conditions =
            (if name \<in> fst ` set (access_points site) then {DuplicateName name} else {}) \<union>
            (if ap \<in> snd ` set (access_points site) then {DuplicateAccessPoint ap} else {})
      in if conditions = {}
         then (Inr (), site\<lparr>access_points := access_points site @ [(name, ap)]\<rparr>)
         else (Inl conditions, site))"

section \<open>Fixtures and invariants\<close>

text \<open>
  The item of the doctest of \<open>ItemProperties\<close>: one alias, a property
  \<open>cork_prop\<close> in its data, \<open>None\<close> for a name the data does not have. Its data
  state counts the reads.
\<close>

definition cork_item :: "nat Item" where
  "cork_item =
     \<lparr>properties_aliases = [''I am aliased'' \<mapsto> ''I am not aliased''],
      read_property_from_data =
        (\<lambda>name n.
           (if name = ''cork_prop'' then PyStr ''I am a cork prop''
            else if name = ''I am not aliased'' then PyStr ''I am not aliased''
            else PyNone,
            Suc n))\<rparr>"

text \<open>
  The invariant behind memoization: every name the item has been asked for is a key
  of the dictionary, and no name has been asked for twice.
\<close>

definition hook_inv :: "'d ItemProperties \<Rightarrow> bool" where
  "hook_inv s =
     (distinct (hook_calls s) \<and> (\<forall>k \<in> set (hook_calls s). entries s k \<noteq> None))"

section \<open>Properties of the property store\<close>

subsection \<open>Forced values\<close>

lemma getitem_forced:
  "forced_values s p = Some v \<Longrightarrow> getitem itm p s = (Inr v, s)"
  by (simp add: getitem_def dict_getitem_def)

lemma getitem_cached:
  "forced_values s key = None \<Longrightarrow> entries s (ItemProperties_alias itm key) = Some v \<Longrightarrow>
     getitem itm key s = (Inr v, s)"
  by (simp add: getitem_def dict_getitem_def)

lemma getitem_miss:
  "forced_values s key = None \<Longrightarrow> entries s (ItemProperties_alias itm key) = None \<Longrightarrow>
     getitem itm key s =
       (Inr (fst (read_property_from_data itm (ItemProperties_alias itm key) (item_data s))),
        s\<lparr>entries := (entries s)(ItemProperties_alias itm key \<mapsto>
              fst (read_property_from_data itm (ItemProperties_alias itm key) (item_data s))),
          item_data := snd (read_property_from_data itm (ItemProperties_alias itm key) (item_data s)),
          hook_calls := hook_calls s @ [ItemProperties_alias itm key]\<rparr>)"
  by (simp add: getitem_def dict_getitem_def call_hook_def setitem_def split: prod.splits)

lemma getitem_total: "\<exists>v. fst (getitem itm key s) = Inr v"
proof (cases "forced_values s key")
  case (Some v)
  then show ?thesis by (simp add: getitem_forced)
next
  case None
  then show ?thesis
    by (cases "entries s (ItemProperties_alias itm key)")
       (simp_all add: getitem_miss getitem_cached)
qed

lemma getitem_forced_values [simp]: "forced_values (snd (getitem itm key s)) = forced_values s"
proof (cases "forced_values s key")
  case (Some v)
  then show ?thesis by (simp add: getitem_forced)
next
  case None
  then show ?thesis
    by (cases "entries s (ItemProperties_alias itm key)")
       (simp_all add: getitem_miss getitem_cached)
qed

lemma setitem_forced_values [simp]: "forced_values (setitem key v s) = forced_values s"
  by (simp add: setitem_def)

lemma step_forced_values [simp]: "forced_values (step itm x s) = forced_values s"
  by (cases x) simp_all

lemma run_ops_forced_values [simp]: "forced_values (run_ops itm xs s) = forced_values s"
  by (induction xs arbitrary: s) simp_all

lemma getitem_entries_kept:
  "entries s k = Some v \<Longrightarrow> entries (snd (getitem itm key s)) k = Some v"
proof (cases "forced_values s key")
  case (Some w)
  assume "entries s k = Some v"
  with Some show ?thesis by (simp add: getitem_forced)
next
  case None
  assume e: "entries s k = Some v"
  show ?thesis
  proof (cases "entries s (ItemProperties_alias itm key)")
    case (Some w)
    with None e show ?thesis by (simp add: getitem_cached)
  next
    case N2: None
    with e have "k \<noteq> ItemProperties_alias itm key" by auto
    with None N2 e show ?thesis by (simp add: getitem_miss)
  qed
qed

lemma step_entries_kept:
  "entries s k = Some v \<Longrightarrow> \<not> writes_to k x \<Longrightarrow> entries (step itm x s) k = Some v"
  by (cases x) (auto simp: getitem_entries_kept setitem_def)

lemma run_ops_entries_kept:
  "entries s k = Some v \<Longrightarrow> \<forall>x \<in> set xs. \<not> writes_to k x \<Longrightarrow>
     entries (run_ops itm xs s) k = Some v"
  by (induction xs arbitrary: s) (simp_all add: step_entries_kept)

lemma getitem_caches:
  "forced_values s key = None \<Longrightarrow>
     \<exists>v. fst (getitem itm key s) = Inr v \<and>
          entries (snd (getitem itm key s)) (ItemProperties_alias itm key) = Some v"
  by (cases "entries s (ItemProperties_alias itm key)")
     (simp_all add: getitem_miss getitem_cached)

subsection \<open>Memoization invariant\<close>

lemma getitem_hook_inv: "hook_inv s \<Longrightarrow> hook_inv (snd (getitem itm key s))"
proof (cases "forced_values s key")
  case (Some w)
  assume "hook_inv s"
  with Some show ?thesis by (simp add: getitem_forced)
next
  case None
  assume h: "hook_inv s"
  show ?thesis
  proof (cases "entries s (ItemProperties_alias itm key)")
    case (Some w)
    with None h show ?thesis by (simp add: getitem_cached)
  next
    case N2: None
    with h have "ItemProperties_alias itm key \<notin> set (hook_calls s)"
      by (auto simp: hook_inv_def)
    with None N2 h show ?thesis by (auto simp add: getitem_miss hook_inv_def)
  qed
qed

lemma step_hook_inv: "hook_inv s \<Longrightarrow> hook_inv (step itm x s)"
  by (cases x) (auto simp: getitem_hook_inv, auto simp: hook_inv_def setitem_def)

lemma run_ops_hook_inv: "hook_inv s \<Longrightarrow> hook_inv (run_ops itm xs s)"
  by (induction xs arbitrary: s) (simp_all add: step_hook_inv)

lemma init_hook_inv: "hook_inv (init forced d)"
  by (simp add: hook_inv_def init_def)

subsection \<open>Claims about forced values\<close>

text \<open>
  C3. A name that \<open>forced_values\<close> binds to \<open>v\<close> is looked up as \<open>v\<close>, whatever the
  item and its \<open>_read_property_from_data\<close> are, and the lookup leaves the whole state
  as it was: the method of the item is not called and nothing is cached.
\<close>

theorem forced_value_returned:
  "forced_values s p = Some v \<Longrightarrow>
     fst (getitem itm p s) = Inr v \<and>
     snd (getitem itm p s) = s \<and>
     hook_calls (snd (getitem itm p s)) = hook_calls s"
  by (simp add: getitem_forced)

theorem forced_value_returned_witness:
  "forced_values (init [''b'' \<mapsto> PyStr ''B''] (0::nat)) ''b'' = Some (PyStr ''B'') \<and>
   fst (getitem \<lparr>properties_aliases = Map.empty,
                 read_property_from_data = (\<lambda>n d. (PyStr ''from data'', Suc d))\<rparr>
          ''b'' (init [''b'' \<mapsto> PyStr ''B''] (0::nat))) = Inr (PyStr ''B'')"
  using forced_value_returned
    [of "init [''b'' \<mapsto> PyStr ''B''] (0::nat)" "''b''" "PyStr ''B''"
        "\<lparr>properties_aliases = Map.empty,
          read_property_from_data = (\<lambda>n d. (PyStr ''from data'', Suc d))\<rparr>"]
  by (simp add: init_def)

subsection \<open>Assignment followed by lookup\<close>

lemma getitem_setitem_same:
  "forced_values s k = None \<Longrightarrow> ItemProperties_alias itm k = k \<Longrightarrow>
     getitem itm k (setitem k v s) = (Inr v, setitem k v s)"
  by (simp add: getitem_cached setitem_def)

lemma getitem_setitem_other:
  "ItemProperties_alias itm k \<noteq> k \<Longrightarrow>
     fst (getitem itm k (setitem k v s)) = fst (getitem itm k s)"
proof (cases "forced_values s k")
  case (Some f)
  then show ?thesis by (simp add: getitem_forced)
next
  case None
  assume "ItemProperties_alias itm k \<noteq> k"
  with None show ?thesis
    by (cases "entries s (ItemProperties_alias itm k)")
       (simp_all add: getitem_miss getitem_cached setitem_def)
qed

lemma getitem_setitem_forced:
  "forced_values s k = Some f \<Longrightarrow> fst (getitem itm k (setitem k v s)) = Inr f"
  by (simp add: getitem_forced)

subsection \<open>Memoization\<close>

text \<open>
  C4. Take a name \<open>p\<close> that is not in the forced values. Its first lookup returns
  a value (it does not raise), and a lookup of \<open>p\<close> after any further calls on the
  store returns the same value and leaves the store as it is, so it does not call
  \<open>_read_property_from_data\<close>. The further calls are lookups of any names and
  assignments to any key but the aliased \<open>p\<close>; in particular they may be lookups
  only. When the item answers \<open>None\<close>, that \<open>None\<close> is stored under the aliased name
  and is what the lookups return. From construction on, whatever calls are made, the
  item is asked for each name at most once.
\<close>

theorem lookup_memoized:
  "forced_values s p = None \<Longrightarrow>
   \<forall>x \<in> set xs. \<not> writes_to (ItemProperties_alias itm p) x \<Longrightarrow>
     (\<exists>v. fst (getitem itm p s) = Inr v \<and>
          getitem itm p (run_ops itm xs (snd (getitem itm p s))) =
            (Inr v, run_ops itm xs (snd (getitem itm p s)))) \<and>
     (entries s (ItemProperties_alias itm p) = None \<and>
      fst (read_property_from_data itm (ItemProperties_alias itm p) (item_data s)) = PyNone \<longrightarrow>
        fst (getitem itm p s) = Inr PyNone \<and>
        entries (snd (getitem itm p s)) (ItemProperties_alias itm p) = Some PyNone) \<and>
     distinct (hook_calls (run_ops itm ys (init forced d)))"
proof (intro conjI impI)
  assume f: "forced_values s p = None"
    and w: "\<forall>x \<in> set xs. \<not> writes_to (ItemProperties_alias itm p) x"
  from getitem_caches [OF f, of itm] obtain v where
    v: "fst (getitem itm p s) = Inr v"
       "entries (snd (getitem itm p s)) (ItemProperties_alias itm p) = Some v"
    by blast
  let ?s2 = "run_ops itm xs (snd (getitem itm p s))"
  have "entries ?s2 (ItemProperties_alias itm p) = Some v"
    using v(2) w by (rule run_ops_entries_kept)
  moreover have "forced_values ?s2 p = None" using f by simp
  ultimately have "getitem itm p ?s2 = (Inr v, ?s2)" by (simp add: getitem_cached)
  with v(1) show "\<exists>v. fst (getitem itm p s) = Inr v \<and> getitem itm p ?s2 = (Inr v, ?s2)"
    by blast
next
  assume f: "forced_values s p = None"
    and n: "entries s (ItemProperties_alias itm p) = None \<and>
      fst (read_property_from_data itm (ItemProperties_alias itm p) (item_data s)) = PyNone"
  then show "fst (getitem itm p s) = Inr PyNone" by (simp add: getitem_miss)
  from f n show "entries (snd (getitem itm p s)) (ItemProperties_alias itm p) = Some PyNone"
    by (simp add: getitem_miss)
next
  have "hook_inv (run_ops itm ys (init forced d))"
    by (rule run_ops_hook_inv) (rule init_hook_inv)
  then show "distinct (hook_calls (run_ops itm ys (init forced d)))"
    by (simp add: hook_inv_def)
qed

theorem lookup_memoized_witness:
  "fst (getitem cork_item ''unknown'' (init [''b'' \<mapsto> PyStr ''B''] 0)) = Inr PyNone \<and>
   fst (getitem cork_item ''unknown''
          (run_ops cork_item [Get ''cork_prop'', Set ''cork_prop'' (PyInt 1), Get ''unknown'']
             (snd (getitem cork_item ''unknown'' (init [''b'' \<mapsto> PyStr ''B''] 0))))) = Inr PyNone \<and>
   distinct (hook_calls (run_ops cork_item [Get ''unknown'', Get ''I am aliased'', Get ''unknown'', Get ''I am not aliased'']
      (init [''b'' \<mapsto> PyStr ''B''] 0)))"
  using lookup_memoized [of "init [''b'' \<mapsto> PyStr ''B''] 0" "''unknown''"
      "[Get ''cork_prop'', Set ''cork_prop'' (PyInt 1), Get ''unknown'']" cork_item
      "[Get ''unknown'', Get ''I am aliased'', Get ''unknown'', Get ''I am not aliased'']"
      "[''b'' \<mapsto> PyStr ''B'']" 0]
  by (auto simp add: init_def cork_item_def ItemProperties_alias_def)

subsection \<open>Resolution order\<close>

text \<open>
  The specification aliases the requested name before it consults the forced values.
  \<open>__getitem__\<close> consults the forced values with the name as requested (the comment
  in the source reads: forced values are already aliased). With \<open>a\<close> an alias of
  \<open>c\<close> and \<open>c\<close> forced, a lookup of \<open>a\<close> asks the item for \<open>c\<close>; the order of the
  specification would return the forced value.
\<close>

theorem getitem_not_spec_order:
  "fst (getitem \<lparr>properties_aliases = [''a'' \<mapsto> ''c''],
                 read_property_from_data = (\<lambda>name d. (PyStr ''raw'', d))\<rparr>
          ''a'' (init [''c'' \<mapsto> PyStr ''forced''] ())) = Inr (PyStr ''raw'') \<and>
   fst (spec_get \<lparr>properties_aliases = [''a'' \<mapsto> ''c''],
                  read_property_from_data = (\<lambda>name d. (PyStr ''raw'', d))\<rparr>
          ''a'' (init [''c'' \<mapsto> PyStr ''forced''] ())) = Inr (PyStr ''forced'')"
  by (simp add: getitem_def spec_get_def dict_getitem_def ItemProperties_alias_def
        init_def call_hook_def setitem_def)

text \<open>
  C5 (amended). A lookup is resolved in this order: if the requested name itself, not
  aliased, is in the forced values, the forced value is returned and the store is
  unchanged; otherwise, if the dictionary has a value under the aliased name, that
  value is returned and the store is unchanged; otherwise the item is asked for the
  aliased name, its answer is stored under the aliased name and returned.
\<close>

theorem getitem_resolution_order:
  "(forced_values s key = Some v \<longrightarrow> getitem itm key s = (Inr v, s)) \<and>
   (forced_values s key = None \<and> entries s (ItemProperties_alias itm key) = Some v \<longrightarrow>
      getitem itm key s = (Inr v, s)) \<and>
   (forced_values s key = None \<and> entries s (ItemProperties_alias itm key) = None \<and>
    read_property_from_data itm (ItemProperties_alias itm key) (item_data s) = (v, d) \<longrightarrow>
      getitem itm key s =
        (Inr v, s\<lparr>entries := (entries s)(ItemProperties_alias itm key \<mapsto> v),
                  item_data := d,
                  hook_calls := hook_calls s @ [ItemProperties_alias itm key]\<rparr>))"
  by (simp add: getitem_forced getitem_cached getitem_miss)

theorem getitem_resolution_order_witness:
  "getitem cork_item ''b'' (init [''b'' \<mapsto> PyStr ''B''] 0) =
     (Inr (PyStr ''B''), init [''b'' \<mapsto> PyStr ''B''] 0) \<and>
   getitem cork_item ''I am aliased''
       (setitem ''I am not aliased'' (PyInt 7) (init [''b'' \<mapsto> PyStr ''B''] 0)) =
     (Inr (PyInt 7), setitem ''I am not aliased'' (PyInt 7) (init [''b'' \<mapsto> PyStr ''B''] 0)) \<and>
   getitem cork_item ''I am aliased'' (init [''I am not aliased'' \<mapsto> PyStr ''B''] 0) =
     (Inr (PyStr ''I am not aliased''),
      \<lparr>forced_values = [''I am not aliased'' \<mapsto> PyStr ''B''],
       entries = [''I am not aliased'' \<mapsto> PyStr ''I am not aliased''],
       item_data = 1, hook_calls = [''I am not aliased'']\<rparr>)"
  using getitem_resolution_order [of "init [''b'' \<mapsto> PyStr ''B''] 0" "''b''" "PyStr ''B''" cork_item 0]
    getitem_resolution_order [of "setitem ''I am not aliased'' (PyInt 7) (init [''b'' \<mapsto> PyStr ''B''] 0)"
       "''I am aliased''" "PyInt 7" cork_item 0]
    getitem_resolution_order [of "init [''I am not aliased'' \<mapsto> PyStr ''B''] 0"
       "''I am aliased''" "PyStr ''I am not aliased''" cork_item 1]
  by (simp add: init_def setitem_def cork_item_def ItemProperties_alias_def)

subsection \<open>Aliases\<close>

text \<open>
  With \<open>a\<close> an alias of \<open>c\<close> and \<open>c\<close> forced, the lookups of \<open>a\<close> and of \<open>c\<close>
  differ: the first returns what the item reads for \<open>c\<close>, the second the forced
  value.
\<close>

theorem alias_lookup_differs:
  "fst (getitem \<lparr>properties_aliases = [''a'' \<mapsto> ''c''],
                 read_property_from_data = (\<lambda>name d. (PyStr ''raw'', d))\<rparr>
          ''a'' (init [''c'' \<mapsto> PyStr ''forced''] ())) \<noteq>
   fst (getitem \<lparr>properties_aliases = [''a'' \<mapsto> ''c''],
                 read_property_from_data = (\<lambda>name d. (PyStr ''raw'', d))\<rparr>
          ''c'' (init [''c'' \<mapsto> PyStr ''forced''] ()))"
  by (simp add: getitem_def dict_getitem_def ItemProperties_alias_def
        init_def call_hook_def setitem_def)

text \<open>
  C8 (amended). When the alias table maps \<open>a\<close> to \<open>c\<close>, \<open>c\<close> is canonical (it is
  aliased to itself) and neither \<open>a\<close> nor \<open>c\<close> is in the forced values, the lookups
  of \<open>a\<close> and of \<open>c\<close> return the same value and the same store: the value is the
  entry under \<open>c\<close>, and the entry under \<open>a\<close> is not touched.
\<close>

theorem alias_shares_entry:
  "properties_aliases itm a = Some c \<Longrightarrow> ItemProperties_alias itm c = c \<Longrightarrow>
   forced_values s a = None \<Longrightarrow> forced_values s c = None \<Longrightarrow>
     getitem itm a s = getitem itm c s \<and>
     (\<exists>v. fst (getitem itm a s) = Inr v \<and> entries (snd (getitem itm a s)) c = Some v) \<and>
     (a \<noteq> c \<longrightarrow> entries (snd (getitem itm a s)) a = entries s a)"
proof (intro conjI impI)
  assume a: "properties_aliases itm a = Some c" and c: "ItemProperties_alias itm c = c"
    and fa: "forced_values s a = None" and fc: "forced_values s c = None"
  from a have ac: "ItemProperties_alias itm a = c" by (simp add: ItemProperties_alias_def)
  show "getitem itm a s = getitem itm c s"
    using ac c fa fc
    by (cases "entries s c") (simp_all add: getitem_miss getitem_cached)
  show "\<exists>v. fst (getitem itm a s) = Inr v \<and> entries (snd (getitem itm a s)) c = Some v"
    using getitem_caches [OF fa, of itm] ac by simp
  show "entries (snd (getitem itm a s)) a = entries s a" if "a \<noteq> c"
    using that ac fa
    by (cases "entries s c") (simp_all add: getitem_miss getitem_cached)
qed

theorem alias_shares_entry_witness:
  "getitem cork_item ''I am aliased'' (init [''b'' \<mapsto> PyStr ''B''] 0) =
   getitem cork_item ''I am not aliased'' (init [''b'' \<mapsto> PyStr ''B''] 0) \<and>
   fst (getitem cork_item ''I am aliased'' (init [''b'' \<mapsto> PyStr ''B''] 0)) =
     Inr (PyStr ''I am not aliased'')"
  using alias_shares_entry [of cork_item "''I am aliased''" "''I am not aliased''"
      "init [''b'' \<mapsto> PyStr ''B''] 0"]
  by (simp add: init_def cork_item_def ItemProperties_alias_def getitem_miss)

subsection \<open>Writes\<close>

text \<open>
  C9. An assignment \<open>props[k] = v\<close> stores \<open>v\<close> under \<open>k\<close> as given. The lookup of
  \<open>k\<close> after it returns \<open>v\<close> for every \<open>v\<close> exactly when \<open>k\<close> is not in the forced
  values and is aliased to itself. When \<open>k\<close> is an alias of another name, the lookup
  after the assignment returns what the lookup before it returned, and for \<open>k\<close> not
  forced that is the entry of the canonical name or, if there is none, what the item
  reads for the canonical name.
\<close>

theorem set_get_round_trip:
  "((\<forall>v. fst (getitem itm k (setitem k v s)) = Inr v) \<longleftrightarrow>
      (forced_values s k = None \<and> ItemProperties_alias itm k = k)) \<and>
   entries (setitem k v s) k = Some v \<and>
   (ItemProperties_alias itm k \<noteq> k \<longrightarrow>
      fst (getitem itm k (setitem k v s)) = fst (getitem itm k s) \<and>
      (forced_values s k = None \<longrightarrow>
         fst (getitem itm k (setitem k v s)) =
           (case entries s (ItemProperties_alias itm k) of
              Some w \<Rightarrow> Inr w
            | None \<Rightarrow> Inr (fst (read_property_from_data itm (ItemProperties_alias itm k)
                                   (item_data s))))))"
proof (intro conjI impI)
  show "(\<forall>v. fst (getitem itm k (setitem k v s)) = Inr v) \<longleftrightarrow>
      (forced_values s k = None \<and> ItemProperties_alias itm k = k)"
  proof
    assume rt: "\<forall>v. fst (getitem itm k (setitem k v s)) = Inr v"
    show "forced_values s k = None \<and> ItemProperties_alias itm k = k"
    proof (rule ccontr)
      assume "\<not> (forced_values s k = None \<and> ItemProperties_alias itm k = k)"
      then have "\<exists>r. \<forall>v. fst (getitem itm k (setitem k v s)) = r"
      proof (cases "forced_values s k")
        case (Some f)
        then show ?thesis by (simp add: getitem_setitem_forced)
      next
        case None
        assume "\<not> (forced_values s k = None \<and> ItemProperties_alias itm k = k)"
        with None have "ItemProperties_alias itm k \<noteq> k" by simp
        then show ?thesis by (simp add: getitem_setitem_other)
      qed
      then obtain r where r: "\<And>v. fst (getitem itm k (setitem k v s)) = r" by blast
      from rt r have "r = Inr PyNone" "r = Inr (PyBool True)" by metis+
      then show False by simp
    qed
  next
    assume "forced_values s k = None \<and> ItemProperties_alias itm k = k"
    then show "\<forall>v. fst (getitem itm k (setitem k v s)) = Inr v"
      by (simp add: getitem_setitem_same)
  qed
next
  show "entries (setitem k v s) k = Some v" by (simp add: setitem_def)
next
  assume "ItemProperties_alias itm k \<noteq> k"
  then show "fst (getitem itm k (setitem k v s)) = fst (getitem itm k s)"
    by (rule getitem_setitem_other)
next
  assume "ItemProperties_alias itm k \<noteq> k" "forced_values s k = None"
  then show "fst (getitem itm k (setitem k v s)) =
           (case entries s (ItemProperties_alias itm k) of
              Some w \<Rightarrow> Inr w
            | None \<Rightarrow> Inr (fst (read_property_from_data itm (ItemProperties_alias itm k)
                                   (item_data s))))"
    by (cases "entries s (ItemProperties_alias itm k)")
       (simp_all add: getitem_miss getitem_cached setitem_def)
qed

theorem set_get_round_trip_witness:
  "fst (getitem cork_item ''cork_prop''
          (setitem ''cork_prop'' (PyInt 5) (init [''b'' \<mapsto> PyStr ''B''] 0))) = Inr (PyInt 5) \<and>
   entries (setitem ''I am aliased'' (PyInt 5) (init [''b'' \<mapsto> PyStr ''B''] 0))
     ''I am aliased'' = Some (PyInt 5) \<and>
   fst (getitem cork_item ''I am aliased''
          (setitem ''I am aliased'' (PyInt 5) (init [''b'' \<mapsto> PyStr ''B''] 0))) =
     Inr (PyStr ''I am not aliased'')"
  using set_get_round_trip [where itm = cork_item and k = "''cork_prop''"
      and s = "init [''b'' \<mapsto> PyStr ''B''] 0" and v = "PyInt 5"]
    set_get_round_trip [where itm = cork_item and k = "''I am aliased''"
      and s = "init [''b'' \<mapsto> PyStr ''B''] 0" and v = "PyInt 5"]
  by (simp add: init_def cork_item_def ItemProperties_alias_def setitem_def getitem_def
        dict_getitem_def call_hook_def)

text \<open>
  C10. No lookup, assignment or sequence of them changes \<open>forced_values\<close>. For a key
  \<open>k\<close> with forced value \<open>f\<close>, an assignment \<open>props[k] = v\<close> is stored in the
  dictionary, and the lookup of \<open>k\<close> returns \<open>f\<close> right after it and after any
  further calls. In particular \<open>AtomItem.read\<close> after \<open>AtomItem.write\<close> returns the
  forced \<open>_content\<close>.
\<close>

theorem forced_values_never_mutated:
  "forced_values (snd (getitem itm key s)) = forced_values s \<and>
   forced_values (setitem key v s) = forced_values s \<and>
   forced_values (run_ops itm xs s) = forced_values s \<and>
   (forced_values s k = Some f \<longrightarrow>
      entries (setitem k v s) k = Some v \<and>
      fst (getitem itm k (setitem k v s)) = Inr f \<and>
      fst (getitem itm k (run_ops itm xs (setitem k v s))) = Inr f) \<and>
   (forced_values s ''_content'' = Some f \<longrightarrow>
      fst (AtomItem_read itm (AtomItem_write v s)) = Inr f)"
  by (simp add: getitem_forced AtomItem_read_def AtomItem_write_def)
     (simp add: setitem_def)

theorem forced_values_never_mutated_witness:
  "entries (setitem ''b'' (PyStr ''new'') (init [''b'' \<mapsto> PyStr ''B''] 0)) ''b'' =
     Some (PyStr ''new'') \<and>
   fst (getitem cork_item ''b''
          (run_ops cork_item [Get ''b'', Set ''b'' (PyInt 1), Get ''cork_prop'']
             (setitem ''b'' (PyStr ''new'') (init [''b'' \<mapsto> PyStr ''B''] 0)))) =
     Inr (PyStr ''B'') \<and>
   fst (AtomItem_read cork_item
          (AtomItem_write (PyStr ''world'') (init [''_content'' \<mapsto> PyStr ''hello''] 0))) =
     Inr (PyStr ''hello'')"
  using forced_values_never_mutated [where itm = cork_item and key = "''b''"
      and s = "init [''b'' \<mapsto> PyStr ''B''] 0" and k = "''b''" and v = "PyStr ''new''"
      and xs = "[Get ''b'', Set ''b'' (PyInt 1), Get ''cork_prop'']" and f = "PyStr ''B''"]
    forced_values_never_mutated [where itm = cork_item and key = "''b''"
      and s = "init [''_content'' \<mapsto> PyStr ''hello''] 0" and k = "''_content''"
      and v = "PyStr ''world''" and xs = "[]" and f = "PyStr ''hello''"]
  by (simp add: init_def setitem_def)

subsection \<open>Atomic items\<close>

text \<open>
  An atomic item with \<open>_content\<close> forced to \<open>hello\<close> does not read \<open>world\<close> after
  \<open>write\<close> of \<open>world\<close>. If the forced key is \<open>content\<close>, the first \<open>read\<close> is not
  \<open>hello\<close>: the reserved key of the source is \<open>_content\<close>.
\<close>

theorem atom_write_not_read_back:
  "fst (AtomItem_read cork_item
          (AtomItem_write (PyStr ''world'') (init [''_content'' \<mapsto> PyStr ''hello''] 0))) \<noteq>
     Inr (PyStr ''world'') \<and>
   fst (AtomItem_read cork_item (init [''content'' \<mapsto> PyStr ''hello''] 0)) \<noteq>
     Inr (PyStr ''hello'')"
  by (simp add: AtomItem_read_def AtomItem_write_def getitem_def dict_getitem_def
        setitem_def init_def call_hook_def ItemProperties_alias_def cork_item_def)

text \<open>
  C7 (amended). \<open>read\<close> and \<open>write\<close> are the lookup and the assignment of the key
  \<open>_content\<close>. When \<open>_content\<close> is forced to \<open>c\<close>, \<open>read\<close> returns \<open>c\<close>,
  \<open>write\<close> of \<open>v\<close> stores \<open>v\<close> in the dictionary, and \<open>read\<close> after it still
  returns \<open>c\<close>. When \<open>_content\<close> is not forced and is aliased to itself, \<open>read\<close>
  after \<open>write\<close> of \<open>v\<close> returns \<open>v\<close>.
\<close>

theorem atom_read_write:
  "AtomItem_read itm s = getitem itm ''_content'' s \<and>
   AtomItem_write v s = setitem ''_content'' v s \<and>
   (forced_values s ''_content'' = Some c \<longrightarrow>
      fst (AtomItem_read itm s) = Inr c \<and>
      entries (AtomItem_write v s) ''_content'' = Some v \<and>
      fst (AtomItem_read itm (AtomItem_write v s)) = Inr c) \<and>
   (forced_values s ''_content'' = None \<and>
    ItemProperties_alias itm ''_content'' = ''_content'' \<longrightarrow>
      fst (AtomItem_read itm (AtomItem_write v s)) = Inr v)"
  by (simp add: AtomItem_read_def AtomItem_write_def getitem_forced getitem_setitem_same)
     (simp add: setitem_def)

theorem atom_read_write_witness:
  "fst (AtomItem_read cork_item (init [''_content'' \<mapsto> PyStr ''hello''] 0)) =
     Inr (PyStr ''hello'') \<and>
   fst (AtomItem_read cork_item
          (AtomItem_write (PyStr ''world'') (init [''_content'' \<mapsto> PyStr ''hello''] 0))) =
     Inr (PyStr ''hello'') \<and>
   fst (AtomItem_read cork_item (AtomItem_write (PyStr ''world'') (init Map.empty 0))) =
     Inr (PyStr ''world'')"
  using atom_read_write [where itm = cork_item and v = "PyStr ''world''"
      and s = "init [''_content'' \<mapsto> PyStr ''hello''] 0" and c = "PyStr ''hello''"]
    atom_read_write [where itm = cork_item and v = "PyStr ''world''"
      and s = "init Map.empty 0" and c = "PyStr ''hello''"]
  by (simp add: init_def cork_item_def ItemProperties_alias_def AtomItem_read_def
        AtomItem_write_def getitem_def dict_getitem_def setitem_def)

section \<open>Properties of matching\<close>

lemma matches_NameError:
  "fst (matches operators itm prop_name operator v s) = Inl (NameError ''_convert_value_type'')"
proof -
  obtain w where "fst (getitem itm prop_name s) = Inr w" using getitem_total by blast
  then show ?thesis
    by (cases "getitem itm prop_name s")
       (simp add: matches_def load_name_def module_globals_def builtin_names_def)
qed

text \<open>
  C1. The claim is that \<open>matches\<close> with \<open>=\<close> returns whether the property equals
  the converted value. On an item whose property \<open>x\<close> is \<open>1\<close>, with \<open>=\<close> in the
  operator table, \<open>matches("x", "=", "1")\<close> raises \<open>NameError\<close> instead of returning
  \<open>True\<close>.
\<close>

theorem matches_eq_raises:
  "fst (matches [''='' \<mapsto> (\<lambda>a b. a = b), ''!='' \<mapsto> (\<lambda>a b. a \<noteq> b)] cork_item
          ''x'' ''='' (PyStr ''1'') (init [''x'' \<mapsto> PyStr ''1''] 0)) =
     Inl (NameError ''_convert_value_type'')"
  by (rule matches_NameError)

text \<open>
  C6. The claim is that an operator that is not in the table makes \<open>matches\<close> fail
  with \<open>OperatorNotAvailable\<close>. \<open>matches("x", "?=", "1")\<close> raises \<open>NameError\<close>
  for \<open>_convert_value_type\<close> before the table is consulted.
\<close>

theorem matches_unknown_operator_raises:
  "fst (matches [''='' \<mapsto> (\<lambda>a b. a = b), ''!='' \<mapsto> (\<lambda>a b. a \<noteq> b)] cork_item
          ''x'' ''?='' (PyStr ''1'') (init [''x'' \<mapsto> PyStr ''1''] 0)) =
     Inl (NameError ''_convert_value_type'') \<and>
   fst (matches [''='' \<mapsto> (\<lambda>a b. a = b), ''!='' \<mapsto> (\<lambda>a b. a \<noteq> b)] cork_item
          ''x'' ''?='' (PyStr ''1'') (init [''x'' \<mapsto> PyStr ''1''] 0)) \<noteq>
     Inl (OperatorNotAvailable ''?='')"
  by (simp add: matches_NameError)

section \<open>Properties of the site registry\<close>

lemma register_cases:
  "register name ap site =
     (if name \<in> fst ` set (access_points site) then
        (if ap \<in> snd ` set (access_points site)
         then (Inl {DuplicateName name, DuplicateAccessPoint ap}, site)
         else (Inl {DuplicateName name}, site))
      else if ap \<in> snd ` set (access_points site)
        then (Inl {DuplicateAccessPoint ap}, site)
        else (Inr (), site\<lparr>access_points := access_points site @ [(name, ap)]\<rparr>))"
  unfolding register_def Let_def by (simp add: insert_commute)

text \<open>
  C2. Registering a name that is already bound fails with the duplicate-name error;
  registering an access point that is already registered, under the same name or
  another, fails with the duplicate-access-point error; in both cases the registry is
  left as it was. A failure reports a condition only when it holds. Otherwise the
  registration succeeds and the binding of the name to the access point is inserted.
\<close>

theorem register_unique:
  "(name \<in> fst ` set (access_points site) \<longrightarrow>
      (\<exists>cs. register name ap site = (Inl cs, site) \<and> DuplicateName name \<in> cs)) \<and>
   (ap \<in> snd ` set (access_points site) \<longrightarrow>
      (\<exists>cs. register name ap site = (Inl cs, site) \<and> DuplicateAccessPoint ap \<in> cs)) \<and>
   (\<forall>cs. fst (register name ap site) = Inl cs \<longrightarrow>
      cs \<noteq> {} \<and>
      (\<forall>n. DuplicateName n \<in> cs \<longleftrightarrow> n = name \<and> name \<in> fst ` set (access_points site)) \<and>
      (\<forall>a. DuplicateAccessPoint a \<in> cs \<longleftrightarrow> a = ap \<and> ap \<in> snd ` set (access_points site))) \<and>
   (name \<notin> fst ` set (access_points site) \<and> ap \<notin> snd ` set (access_points site) \<longrightarrow>
      register name ap site =
        (Inr (), site\<lparr>access_points := access_points site @ [(name, ap)]\<rparr>) \<and>
      map_of (access_points (snd (register name ap site))) =
        (map_of (access_points site))(name \<mapsto> ap))"
proof (intro conjI impI allI)
  assume "name \<in> fst ` set (access_points site)"
  then show "\<exists>cs. register name ap site = (Inl cs, site) \<and> DuplicateName name \<in> cs"
    by (simp add: register_cases)
next
  assume "ap \<in> snd ` set (access_points site)"
  then show "\<exists>cs. register name ap site = (Inl cs, site) \<and> DuplicateAccessPoint ap \<in> cs"
    by (simp add: register_cases)
next
  fix cs assume f: "fst (register name ap site) = Inl cs"
  then show "cs \<noteq> {}"
    by (auto simp add: register_cases split: if_splits)
  from f show "\<And>n. DuplicateName n \<in> cs \<longleftrightarrow>
      n = name \<and> name \<in> fst ` set (access_points site)"
    by (auto simp add: register_cases split: if_splits)
  from f show "\<And>a. DuplicateAccessPoint a \<in> cs \<longleftrightarrow>
      a = ap \<and> ap \<in> snd ` set (access_points site)"
    by (auto simp add: register_cases split: if_splits)
next
  assume n: "name \<notin> fst ` set (access_points site) \<and> ap \<notin> snd ` set (access_points site)"
  then show "register name ap site =
      (Inr (), site\<lparr>access_points := access_points site @ [(name, ap)]\<rparr>)"
    by (simp add: register_cases)
  from n have "map_of (access_points site) name = None"
    by (simp add: map_of_eq_None_iff)
  with n show "map_of (access_points (snd (register name ap site))) =
      (map_of (access_points site))(name \<mapsto> ap)"
    by (auto simp add: register_cases fun_eq_iff map_add_def split: option.splits)
qed

theorem register_unique_witness:
  "register ''things'' 1 \<lparr>access_points = []\<rparr> =
     (Inr (), \<lparr>access_points = [(''things'', 1)]\<rparr>) \<and>
   register ''stuff'' 1 \<lparr>access_points = [(''things'', 1)]\<rparr> =
     (Inl {DuplicateAccessPoint 1}, \<lparr>access_points = [(''things'', 1)]\<rparr>) \<and>
   register ''things'' 2 \<lparr>access_points = [(''things'', 1)]\<rparr> =
     (Inl {DuplicateName ''things''}, \<lparr>access_points = [(''things'', 1)]\<rparr>) \<and>
   register ''things'' 1 \<lparr>access_points = [(''things'', 1)]\<rparr> =
     (Inl {DuplicateName ''things'', DuplicateAccessPoint 1},
      \<lparr>access_points = [(''things'', 1)]\<rparr>) \<and>
   register ''things'' 2 \<lparr>access_points = [(''things'', 1), (''stuff'', 2)]\<rparr> =
     (Inl {DuplicateName ''things'', DuplicateAccessPoint 2},
      \<lparr>access_points = [(''things'', 1), (''stuff'', 2)]\<rparr>)"
  using register_unique [where name = "''things''" and ap = 1 and site = "\<lparr>access_points = []\<rparr>"]
    register_unique [where name = "''stuff''" and ap = 1
      and site = "\<lparr>access_points = [(''things'', 1)]\<rparr>"]
    register_unique [where name = "''things''" and ap = 2
      and site = "\<lparr>access_points = [(''things'', 1)]\<rparr>"]
    register_unique [where name = "''things''" and ap = 1
      and site = "\<lparr>access_points = [(''things'', 1)]\<rparr>"]
    register_unique [where name = "''things''" and ap = 2
      and site = "\<lparr>access_points = [(''things'', 1), (''stuff'', 2)]\<rparr>"]
  by (simp add: register_cases)

end
